theory Spec2Isabelle
  imports Complex_Main
begin

section \<open>Text and character classes\<close>

text \<open>
  Python strings are sequences of code points.  Here a text is a \<open>string\<close>, a list of
  8-bit characters, so the model covers texts over the code points 0..255.  The classes
  below are the ones Python's \<open>re\<close> module uses for \<open>str\<close> patterns (Unicode aware, no
  flags), cut down to that range:
  \<^item> \<open>\d\<close>: decimal digits, here \<open>0\<close>..\<open>9\<close>;
  \<^item> \<open>\s\<close>: white space, here 9..13, 28..31, 32, 133 and 160;
  \<^item> \<open>\w\<close>: alphanumeric characters and the underscore;
  \<^item> \<open>[A-Za-z\s]\<close>: the ASCII letters and white space.
\<close>

definition code :: "char \<Rightarrow> nat" where
  "code c = of_char c"

definition is_digit :: "char \<Rightarrow> bool" where
  "is_digit c = (48 \<le> code c \<and> code c \<le> 57)"

definition is_space :: "char \<Rightarrow> bool" where
  "is_space c = ((9 \<le> code c \<and> code c \<le> 13) \<or> (28 \<le> code c \<and> code c \<le> 32)
                  \<or> code c = 133 \<or> code c = 160)"

definition is_ascii_letter :: "char \<Rightarrow> bool" where
  "is_ascii_letter c = ((65 \<le> code c \<and> code c \<le> 90) \<or> (97 \<le> code c \<and> code c \<le> 122))"

definition is_alnum :: "char \<Rightarrow> bool" where
  "is_alnum c = (is_digit c \<or> is_ascii_letter c
                  \<or> code c \<in> {170, 178, 179, 181, 185, 186, 188, 189, 190}
                  \<or> (192 \<le> code c \<and> code c \<le> 214)
                  \<or> (216 \<le> code c \<and> code c \<le> 246)
                  \<or> (248 \<le> code c \<and> code c \<le> 255))"

definition is_word :: "char \<Rightarrow> bool" where
  "is_word c = (is_alnum c \<or> code c = 95)"

definition is_letter_or_space :: "char \<Rightarrow> bool" where
  "is_letter_or_space c = (is_ascii_letter c \<or> is_space c)"

section \<open>Regular expressions as Python's \<open>re\<close> matches them\<close>

text \<open>
  The three patterns of \<^verbatim>\<open>job_matcher.py\<close> use literals, character classes, \<open>\b\<close>,
  sequence, alternation, \<open>?\<close>, greedy \<open>*\<close> and \<open>+\<close> over a character class, and capturing
  groups.  \<open>re\<close> is a backtracking matcher: at a position it tries the alternatives in
  order, the greedy operators longest first, and takes the first overall success.  The
  model returns every success at a position in that order; the head of the list is
  Python's match.

  A cursor is the text before the position, reversed, and the text after it.
\<close>

datatype re =
    Lit string
  | Cls "char \<Rightarrow> bool"
  | Bnd
  | Seq re re
  | Alt re re
  | Opt re
  | Star "char \<Rightarrow> bool"
  | Plus "char \<Rightarrow> bool"
  | Grp re

type_synonym cursor = "string \<times> string"
type_synonym groups = "string option list"

fun ngroups :: "re \<Rightarrow> nat" where
  "ngroups (Seq r1 r2) = ngroups r1 + ngroups r2"
| "ngroups (Alt r1 r2) = ngroups r1 + ngroups r2"
| "ngroups (Opt r) = ngroups r"
| "ngroups (Grp r) = Suc (ngroups r)"
| "ngroups _ = 0"

text \<open>\<open>\b\<close>: exactly one of the two neighbouring characters is a word character; the
  start and the end of the text count as non-word.\<close>

definition at_boundary :: "string \<Rightarrow> string \<Rightarrow> bool" where
  "at_boundary b a = ((b \<noteq> [] \<and> is_word (hd b)) \<noteq> (a \<noteq> [] \<and> is_word (hd a)))"

fun greedy_run :: "(char \<Rightarrow> bool) \<Rightarrow> string \<Rightarrow> string \<Rightarrow> cursor list" where
  "greedy_run P b [] = [(b, [])]"
| "greedy_run P b (x # xs) =
     (if P x then greedy_run P (x # b) xs @ [(b, x # xs)] else [(b, x # xs)])"

fun rmatch :: "re \<Rightarrow> cursor \<Rightarrow> (groups \<times> cursor) list" where
  "rmatch (Lit w) (b, a) =
     (if take (length w) a = w then [([], (rev w @ b, drop (length w) a))] else [])"
| "rmatch (Cls P) (b, a) =
     (case a of [] \<Rightarrow> [] | x # xs \<Rightarrow> if P x then [([], (x # b, xs))] else [])"
| "rmatch Bnd (b, a) = (if at_boundary b a then [([], (b, a))] else [])"
| "rmatch (Seq r1 r2) cur =
     concat (map (\<lambda>(g1, cur1). map (\<lambda>(g2, cur2). (g1 @ g2, cur2)) (rmatch r2 cur1))
                 (rmatch r1 cur))"
| "rmatch (Alt r1 r2) cur =
     map (\<lambda>(g, c). (g @ replicate (ngroups r2) None, c)) (rmatch r1 cur) @
     map (\<lambda>(g, c). (replicate (ngroups r1) None @ g, c)) (rmatch r2 cur)"
| "rmatch (Opt r) cur = rmatch r cur @ [(replicate (ngroups r) None, cur)]"
| "rmatch (Star P) (b, a) = map (Pair []) (greedy_run P b a)"
| "rmatch (Plus P) (b, a) =
     (case a of [] \<Rightarrow> []
      | x # xs \<Rightarrow> if P x then map (Pair []) (greedy_run P (x # b) xs) else [])"
| "rmatch (Grp r) (b, a) =
     map (\<lambda>(g, (b', a')). (Some (take (length a - length a') a) # g, (b', a')))
         (rmatch r (b, a))"

text \<open>
  \<open>re.finditer\<close>: the leftmost match from the position, then on from its end.  Each item
  is the matched text and the groups.  None of the patterns below matches the empty
  string; after an empty match the scan moves one character on.
\<close>

function finditer :: "re \<Rightarrow> string \<Rightarrow> string \<Rightarrow> (string \<times> groups) list" where
  "finditer r b a =
     (case rmatch r (b, a) of
        [] \<Rightarrow> (case a of [] \<Rightarrow> [] | x # xs \<Rightarrow> finditer r (x # b) xs)
      | (g, (b', a')) # _ \<Rightarrow>
          (take (length a - length a') a, g) #
          (if length a' < length a then finditer r b' a'
           else (case a of [] \<Rightarrow> [] | x # xs \<Rightarrow> finditer r (x # b) xs)))"
  by pat_completeness auto
termination
  by (relation "measure (\<lambda>(r, b, a). length a)") auto

declare finditer.simps [simp del]

text \<open>\<open>re.findall\<close> gives the matched texts when the pattern has no group, the group's
  text when it has one, and the tuple of the groups' texts when it has several; a group
  that took no part in the match gives the empty string.\<close>

definition group_text :: "groups \<Rightarrow> nat \<Rightarrow> string" where
  "group_text g i = (if i < length g then (case g ! i of None \<Rightarrow> [] | Some t \<Rightarrow> t) else [])"

definition findall0 :: "re \<Rightarrow> string \<Rightarrow> string list" where
  "findall0 r s = map fst (finditer r [] s)"

definition findall1 :: "re \<Rightarrow> string \<Rightarrow> string list" where
  "findall1 r s = map (\<lambda>(m, g). group_text g 0) (finditer r [] s)"

definition findall2 :: "re \<Rightarrow> string \<Rightarrow> (string \<times> string) list" where
  "findall2 r s = map (\<lambda>(m, g). (group_text g 0, group_text g 1)) (finditer r [] s)"

definition findall4 :: "re \<Rightarrow> string \<Rightarrow> (string \<times> string \<times> string \<times> string) list" where
  "findall4 r s =
     map (\<lambda>(m, g). (group_text g 0, group_text g 1, group_text g 2, group_text g 3))
         (finditer r [] s)"

subsection \<open>The patterns of the source\<close>

text \<open>\<^verbatim>\<open>\b\w+\b\<close>\<close>

definition word_re :: re where
  "word_re = Seq Bnd (Seq (Plus is_word) Bnd)"

text \<open>\<^verbatim>\<open>(years?|months?)\<close>\<close>

definition unit_re :: re where
  "unit_re = Grp (Alt (Seq (Lit ''year'') (Opt (Lit ''s''))) (Seq (Lit ''month'') (Opt (Lit ''s''))))"

text \<open>\<^verbatim>\<open>(\d+)\s+(years?|months?)\<close>\<close>

definition experience_re :: re where
  "experience_re = Seq (Grp (Plus is_digit)) (Seq (Plus is_space) unit_re)"

text \<open>\<^verbatim>\<open>\b(Bachelor|Master|PhD|Associate|Degree|Certification)\b\<close>\<close>

definition education_re :: re where
  "education_re =
     Seq Bnd (Seq (Grp (Alt (Lit ''Bachelor'') (Alt (Lit ''Master'') (Alt (Lit ''PhD'')
       (Alt (Lit ''Associate'') (Alt (Lit ''Degree'') (Lit ''Certification''))))))) Bnd)"

text \<open>\<^verbatim>\<open>(\d+)\s+(years?|months?)\s+(of|in)?\s*([A-Za-z\s]+)\<close>\<close>

definition resume_experience_re :: re where
  "resume_experience_re =
     Seq (Grp (Plus is_digit)) (Seq (Plus is_space) (Seq unit_re (Seq (Plus is_space)
       (Seq (Opt (Grp (Alt (Lit ''of'') (Lit ''in'')))) (Seq (Star is_space)
         (Grp (Plus is_letter_or_space)))))))"

section \<open>Python values, errors and library functions\<close>

text \<open>
  The exceptions the modelled code can raise.  Nothing in the source catches any of
  them, so an error ends the whole call.
\<close>

datatype error = JSONDecodeError | AttributeError | TypeError | ValueError

text \<open>
  The values \<open>json.loads\<close> can return.  A dictionary is a list of key/value pairs with
  distinct keys.  \<open>json.loads\<close> itself is library code: the parser takes it as the
  parameter \<open>loads\<close>.
\<close>

datatype pyval =
    PNone
  | PBool bool
  | PInt int
  | PFloat rat
  | PStr string
  | PList "pyval list"
  | PDict "(string \<times> pyval) list"

text \<open>\<open>re.I\<close> is the integer flag 2.\<close>

definition re_I :: pyval where
  "re_I = PInt 2"

text \<open>\<open>d.get(k, default)\<close>\<close>

definition dict_get :: "(string \<times> pyval) list \<Rightarrow> string \<Rightarrow> pyval \<Rightarrow> pyval" where
  "dict_get d k dflt = (case map_of d k of None \<Rightarrow> dflt | Some v \<Rightarrow> v)"

text \<open>The subject of \<open>re.findall\<close> must be a string: anything else raises \<open>TypeError\<close>.\<close>

definition as_text :: "pyval \<Rightarrow> error + string" where
  "as_text v = (case v of PStr s \<Rightarrow> Inr s | _ \<Rightarrow> Inl TypeError)"

text \<open>\<open>s.endswith(suffix)\<close>\<close>

definition endswith :: "string \<Rightarrow> string \<Rightarrow> bool" where
  "endswith s suf = (length suf \<le> length s \<and> drop (length s - length suf) s = suf)"

text \<open>\<open>sub in s\<close> for strings\<close>

fun contains :: "string \<Rightarrow> string \<Rightarrow> bool" where
  "contains sub [] = (sub = [])"
| "contains sub (x # xs) = (take (length sub) (x # xs) = sub \<or> contains sub xs)"

text \<open>\<open>s.lower()\<close> on the code points 0..255: \<open>A\<close>..\<open>Z\<close> and the capital letters
  192..222 (215 is the multiplication sign) move up by 32.\<close>

definition lower_char :: "char \<Rightarrow> char" where
  "lower_char c =
     (if (65 \<le> code c \<and> code c \<le> 90) \<or> (192 \<le> code c \<and> code c \<le> 222 \<and> code c \<noteq> 215)
      then char_of (code c + 32) else c)"

definition lower :: "string \<Rightarrow> string" where
  "lower s = map lower_char s"

text \<open>
  \<open>int(s)\<close> on a string of decimal digits, the only strings a \<open>(\d+)\<close> group yields.
  Python integers are unbounded.  On any other string the model answers \<open>ValueError\<close>;
  Python's \<open>int\<close> also reads a sign, surrounding white space and underscores, which no
  caller here passes, and the theorems below speak of digit strings only.
\<close>

definition digit_string :: "string \<Rightarrow> bool" where
  "digit_string s = (s \<noteq> [] \<and> list_all is_digit s)"

definition digit_value :: "string \<Rightarrow> int" where
  "digit_value s = foldl (\<lambda>n c. 10 * n + (int (code c) - 48)) 0 s"

definition py_int :: "string \<Rightarrow> error + int" where
  "py_int s = (if digit_string s then Inr (digit_value s) else Inl ValueError)"

text \<open>\<open>sum(int(q) for q in qs)\<close>: the first failing conversion ends the sum.\<close>

fun sum_ints :: "string list \<Rightarrow> error + int" where
  "sum_ints [] = Inr 0"
| "sum_ints (q # qs) =
     (case py_int q of
        Inl e \<Rightarrow> Inl e
      | Inr n \<Rightarrow> (case sum_ints qs of Inl e \<Rightarrow> Inl e | Inr m \<Rightarrow> Inr (n + m)))"

section \<open>\<^verbatim>\<open>job_matcher.py\<close>\<close>

subsection \<open>\<open>extract_resume_info\<close>\<close>

text \<open>
  The returned dictionary.  \<open>total_experience\<close> is a Python float; the model keeps the
  exact rational value of \<open>experience_years + experience_months / 12\<close>, of which the
  float is the rounding to binary64.
\<close>

record resume_info =
  skills :: "string list"
  education :: "string list"
  total_experience :: rat

definition education_keywords :: "string list" where
  "education_keywords =
     [''Bachelor'', ''Master'', ''PhD'', ''Associate'', ''Degree'', ''Certification'']"

text \<open>Lines 75 to 78: the durations of the resume text.\<close>

definition experience :: "string \<Rightarrow> (string \<times> string \<times> string \<times> string) list" where
  "experience resume_text = findall4 resume_experience_re resume_text"

definition experience_years :: "string \<Rightarrow> error + int" where
  "experience_years resume_text =
     sum_ints (map fst (filter (\<lambda>exp. contains ''year'' (lower (fst (snd exp))))
                               (experience resume_text)))"

definition experience_months :: "string \<Rightarrow> error + int" where
  "experience_months resume_text =
     sum_ints (map fst (filter (\<lambda>exp. contains ''month'' (lower (fst (snd exp))))
                               (experience resume_text)))"

definition total_experience_of :: "string \<Rightarrow> error + rat" where
  "total_experience_of resume_text =
     (case experience_years resume_text of
        Inl e \<Rightarrow> Inl e
      | Inr y \<Rightarrow>
          (case experience_months resume_text of
             Inl e \<Rightarrow> Inl e
           | Inr m \<Rightarrow> Inr (of_int y + of_int m / 12)))"

text \<open>
  The tagger \<open>nlp\<close> is spaCy's model: a parameter giving the tokens of the text, each
  with its text and its part of speech.  \<open>list(set)\<close> has no fixed order; the model lists
  the distinct values in the order of their first occurrence.
\<close>

definition extract_resume_info ::
  "(string \<Rightarrow> (string \<times> string) list) \<Rightarrow> string \<Rightarrow> error + resume_info" where
  "extract_resume_info nlp resume_text =
     (let doc = nlp resume_text;
          sk = remdups (map fst (filter (\<lambda>(text, tag).
                  tag \<in> set [''NOUN'', ''PROPN''] \<and> length text > 1) doc));
          ed = remdups (filter (\<lambda>text. text \<in> set education_keywords) (map fst doc))
      in case total_experience_of resume_text of
           Inl e \<Rightarrow> Inl e
         | Inr t \<Rightarrow> Inr \<lparr>skills = sk, education = ed, total_experience = t\<rparr>)"

subsection \<open>\<open>parse_job_descriptions\<close>\<close>

record job =
  description :: string
  requirements :: "string list"
  experience_required :: "(string \<times> string) list"
  education_required :: "string list"
  job_title :: pyval

text \<open>
  The dictionary literal of lines 103 to 110.  The education pattern is applied to
  \<open>job_desc.get('description', re.I)\<close>: the flag is the default of the lookup, not a flag
  of the search, so the search is case sensitive, and a dictionary without a description
  hands the flag itself to \<open>re.findall\<close>.
\<close>

definition job_record :: "(string \<times> pyval) list \<Rightarrow> error + job" where
  "job_record job_desc =
     (let title = dict_get job_desc ''title'' (PStr ''N/A'') in
      case as_text (dict_get job_desc ''description'' (PStr [])) of
        Inl e \<Rightarrow> Inl e
      | Inr d \<Rightarrow>
          (case as_text (dict_get job_desc ''description'' re_I) of
             Inl e \<Rightarrow> Inl e
           | Inr d' \<Rightarrow>
               Inr \<lparr>description = d,
                    requirements = findall0 word_re d,
                    experience_required = findall2 experience_re d,
                    education_required = findall1 education_re d',
                    job_title = title\<rparr>))"

text \<open>
  One turn of the loop.  An entry of \<open>job_desc_texts\<close> is a string or \<open>None\<close> (what
  \<open>read_file_content\<close> returns); \<open>None\<close> has no \<open>endswith\<close>.  A value of \<open>json.loads\<close>
  that is not a dictionary has no \<open>get\<close>.
\<close>

definition parse_job :: "(string \<Rightarrow> error + pyval) \<Rightarrow> string option \<Rightarrow> error + job" where
  "parse_job loads entry =
     (case entry of
        None \<Rightarrow> Inl AttributeError
      | Some text \<Rightarrow>
          if endswith text ''.json'' then
            (case loads text of
               Inl e \<Rightarrow> Inl e
             | Inr (PDict job_desc) \<Rightarrow> job_record job_desc
             | Inr _ \<Rightarrow> Inl AttributeError)
          else job_record [(''description'', PStr text)])"



subsection \<open>\<open>match_resume_with_jobs\<close>\<close>

text \<open>
  \<open>skills_match_percentage\<close> is a Python float (or the integer 0); the model keeps the
  exact rational value of \<open>(skills_match / total_skills) * 100\<close>.
\<close>

record match_result =
  res_job_title :: pyval
  job_description :: string
  skills_match_percentage :: rat
  experience_match :: bool
  education_match :: bool
  total_experience_required :: int

definition match_job :: "resume_info \<Rightarrow> job \<Rightarrow> error + match_result" where
  "match_job resume j =
     (let job_skills = requirements j;
          skills_match = card (set (skills resume) \<inter> set job_skills);
          total_skills = length job_skills;
          match_percentage =
            (if total_skills > 0 then (of_nat skills_match / of_nat total_skills) * 100 else 0)
      in case (if experience_required j \<noteq> []
               then sum_ints (map fst (experience_required j)) else Inr 0) of
           Inl e \<Rightarrow> Inl e
         | Inr required \<Rightarrow>
             Inr \<lparr>res_job_title = job_title j,
                  job_description = description j,
                  skills_match_percentage = match_percentage,
                  experience_match = (total_experience resume \<ge> of_int required),
                  education_match =
                    list_ex (\<lambda>edu. edu \<in> set (education resume)) (education_required j),
                  total_experience_required = required\<rparr>)"

fun match_resume_with_jobs :: "resume_info \<Rightarrow> job list \<Rightarrow> error + match_result list" where
  "match_resume_with_jobs resume [] = Inr []"
| "match_resume_with_jobs resume (j # js) =
     (case match_job resume j of
        Inl e \<Rightarrow> Inl e
      | Inr r \<Rightarrow>
          (case match_resume_with_jobs resume js of
             Inl e \<Rightarrow> Inl e
           | Inr rs \<Rightarrow> Inr (r # rs)))"

section \<open>\<^verbatim>\<open>app.py\<close>\<close>

subsection \<open>\<open>read_file_content\<close>\<close>

text \<open>
  An uploaded file is a byte stream with a read position: \<open>file.read()\<close> returns the
  bytes from the position on and leaves the position at the end.  The two codecs are
  library code, taken as parameters; \<open>None\<close> is \<open>UnicodeDecodeError\<close>.  \<open>st.error\<close> adds
  a message to the page and returns.
\<close>

record uploaded_file =
  content :: "char list"
  pos :: nat

definition fread :: "uploaded_file \<Rightarrow> char list \<times> uploaded_file" where
  "fread f = (drop (pos f) (content f), f\<lparr>pos := length (content f)\<rparr>)"

definition decode_message :: string where
  "decode_message = ''Could not decode the file. Please check the file format and encoding.''"

definition read_file_content ::
  "(char list \<Rightarrow> string option) \<Rightarrow> (char list \<Rightarrow> string option) \<Rightarrow>
   uploaded_file \<Rightarrow> string list \<Rightarrow> string option \<times> uploaded_file \<times> string list" where
  "read_file_content utf8 latin1 file page =
     (let (bytes, file1) = fread file in
      case utf8 bytes of
        Some text \<Rightarrow> (Some text, file1, page)
      | None \<Rightarrow>
          (let (bytes2, file2) = fread file1 in
           case latin1 bytes2 of
             Some text \<Rightarrow> (Some text, file2, page)
           | None \<Rightarrow> (None, file2, page @ [decode_message])))"


subsection \<open>\<open>best_fit\<close>\<close>

text \<open>\<open>max(match_results, key=..., default=None)\<close>: the running maximum is replaced only
  by an item whose key is strictly greater.\<close>

fun max_from :: "('a \<Rightarrow> rat) \<Rightarrow> 'a \<Rightarrow> 'a list \<Rightarrow> 'a" where
  "max_from key best [] = best"
| "max_from key best (x # xs) = max_from key (if key x > key best then x else best) xs"

definition best_fit :: "match_result list \<Rightarrow> match_result option" where
  "best_fit match_results =
     (case match_results of
        [] \<Rightarrow> None
      | r # rs \<Rightarrow> Some (max_from skills_match_percentage r rs))"

section \<open>The specification's words\<close>





section \<open>Auxiliary notions\<close>



section \<open>Sample inputs\<close>

text \<open>Concrete values at which the theorems below are instantiated.\<close>

definition sample_result :: "string \<Rightarrow> rat \<Rightarrow> match_result" where
  "sample_result title p =
     \<lparr>res_job_title = PStr title, job_description = [], skills_match_percentage = p,
      experience_match = True, education_match = False, total_experience_required = 0\<rparr>"






section \<open>Properties\<close>

subsection \<open>The running maximum\<close>

lemma max_from_mem: "max_from key best xs \<in> set (best # xs)"
  by (induction xs arbitrary: best) auto

lemma max_from_ge_best: "key best \<le> key (max_from key best xs)"
proof (induction xs arbitrary: best)
  case Nil
  then show ?case by simp
next
  case (Cons x xs)
  show ?case
  proof (cases "key x > key best")
    case True
    have "key x \<le> key (max_from key x xs)" by (rule Cons.IH)
    with True show ?thesis by simp
  next
    case False
    then show ?thesis using Cons.IH [of best] by simp
  qed
qed

lemma max_from_split:
  "\<exists>pre post. best # xs = pre @ max_from key best xs # post \<and>
     (\<forall>x\<in>set pre. key x < key (max_from key best xs)) \<and>
     (\<forall>x\<in>set post. key x \<le> key (max_from key best xs))"
proof (induction xs arbitrary: best)
  case Nil
  have "[best] = [] @ best # [] \<and> (\<forall>x\<in>set []. key x < key best) \<and>
        (\<forall>x\<in>set []. key x \<le> key best)" by simp
  then show ?case unfolding max_from.simps by blast
next
  case (Cons x xs)
  show ?case
  proof (cases "key x > key best")
    case True
    let ?m = "max_from key x xs"
    from Cons.IH [of x] obtain pre post where
      s: "x # xs = pre @ ?m # post" and
      p: "\<forall>y\<in>set pre. key y < key ?m" and q: "\<forall>y\<in>set post. key y \<le> key ?m"
      by blast
    have "key x \<le> key ?m" by (rule max_from_ge_best)
    with True have "key best < key ?m" by simp
    with s p q have "best # x # xs = (best # pre) @ ?m # post \<and>
       (\<forall>y\<in>set (best # pre). key y < key ?m) \<and> (\<forall>y\<in>set post. key y \<le> key ?m)"
      by simp
    moreover from True have "max_from key best (x # xs) = ?m" by simp
    ultimately show ?thesis by metis
  next
    case False
    let ?m = "max_from key best xs"
    from Cons.IH [of best] obtain pre post where
      s: "best # xs = pre @ ?m # post" and
      p: "\<forall>y\<in>set pre. key y < key ?m" and q: "\<forall>y\<in>set post. key y \<le> key ?m"
      by blast
    have m: "max_from key best (x # xs) = ?m" using False by simp
    have xb: "key x \<le> key best" using False by simp
    show ?thesis
    proof (cases pre)
      case Nil
      from s have "best # xs = ?m # post" unfolding Nil append_Nil .
      then have bm: "?m = best" and xp: "post = xs" by (metis list.inject)+
      have "\<forall>y\<in>set (x # xs). key y \<le> key ?m"
        using q xb by (simp add: bm xp)
      moreover have "best # x # xs = [] @ ?m # (x # xs)"
        by (simp add: bm)
      moreover have "\<forall>y\<in>set []. key y < key ?m" by simp
      ultimately show ?thesis unfolding m by blast
    next
      case (Cons p' pre')
      from s have "best # xs = p' # (pre' @ ?m # post)" unfolding Cons append_Cons .
      then have e1: "p' = best" and e2: "xs = pre' @ ?m # post" by (metis list.inject)+
      have kb: "key best < key ?m" using p unfolding Cons e1 by simp
      with xb have kx: "key x < key ?m" by simp
      have "best # x # xs = (best # x # pre') @ ?m # post"
        using e2 by (metis append_Cons)
      moreover have "\<forall>y\<in>set (best # x # pre'). key y < key ?m"
        using p kb kx unfolding Cons by simp
      ultimately show ?thesis using q unfolding m by blast
    qed
  qed
qed



subsection \<open>Best-fit selection\<close>

text \<open>
  Claim C8.  The selector returns an element of the sequence whose
  \<open>skills_match_percentage\<close> is greatest, and among those the first one: every element
  before it has a strictly smaller percentage, every element after it a smaller or equal
  one.  For the empty sequence it returns \<open>None\<close>, the "no result" value; the selector
  has no error result at all.
\<close>

theorem best_fit_first_maximum:
  "best_fit [] = None \<and>
   (rs \<noteq> [] \<longrightarrow>
     (\<exists>pre m post. rs = pre @ m # post \<and> best_fit rs = Some m \<and>
        (\<forall>x\<in>set pre. skills_match_percentage x < skills_match_percentage m) \<and>
        (\<forall>x\<in>set post. skills_match_percentage x \<le> skills_match_percentage m)))"
proof (cases rs)
  case Nil
  then show ?thesis by (simp add: best_fit_def)
next
  case (Cons r rs')
  have b: "best_fit rs = Some (max_from skills_match_percentage r rs')"
    using Cons by (simp add: best_fit_def)
  from max_from_split [of r rs' skills_match_percentage] Cons b
  have "\<exists>pre m post. rs = pre @ m # post \<and> best_fit rs = Some m \<and>
        (\<forall>x\<in>set pre. skills_match_percentage x < skills_match_percentage m) \<and>
        (\<forall>x\<in>set post. skills_match_percentage x \<le> skills_match_percentage m)"
    by metis
  then show ?thesis by (simp add: best_fit_def)
qed

theorem best_fit_first_maximum_witness:
  "[sample_result ''a'' 50, sample_result ''b'' 75, sample_result ''c'' 75] \<noteq> [] \<and>
   best_fit [sample_result ''a'' 50, sample_result ''b'' 75, sample_result ''c'' 75]
     = Some (sample_result ''b'' 75) \<and>
   (\<exists>pre m post.
      [sample_result ''a'' 50, sample_result ''b'' 75, sample_result ''c'' 75] = pre @ m # post \<and>
      best_fit [sample_result ''a'' 50, sample_result ''b'' 75, sample_result ''c'' 75] = Some m \<and>
      (\<forall>x\<in>set pre. skills_match_percentage x < skills_match_percentage m) \<and>
      (\<forall>x\<in>set post. skills_match_percentage x \<le> skills_match_percentage m))"
  using best_fit_first_maximum
    [of "[sample_result ''a'' 50, sample_result ''b'' 75, sample_result ''c'' 75]"]
  by (simp add: best_fit_def sample_result_def)

subsection \<open>Sums of digit strings\<close>



subsection \<open>What the patterns capture\<close>










subsection \<open>The records of the parser\<close>

text \<open>A text that does not end in \<open>.json\<close> always gives a record.  A dictionary without
  a description gives none: the education search is handed \<open>re.I\<close> and raises.\<close>

lemma plain_text_record:
  "\<not> endswith text ''.json'' \<Longrightarrow>
   parse_job loads (Some text) =
     Inr \<lparr>description = text,
          requirements = findall0 word_re text,
          experience_required = findall2 experience_re text,
          education_required = findall1 education_re text,
          job_title = PStr ''N/A''\<rparr>"
  by (simp add: parse_job_def job_record_def dict_get_def as_text_def)






subsection \<open>The matcher\<close>










subsection \<open>Experience\<close>





subsection \<open>Education keywords: the pattern against the specification's words\<close>























subsection \<open>JSON blobs\<close>

text \<open>
  Claim C1.  The parser chooses the JSON branch by \<open>text.endswith('.json')\<close>, not by
  whether the text is JSON.  A blob that is a JSON object with a title and a description
  does not end in \<open>.json\<close>; whatever \<open>json.loads\<close> would make of it, the parser never
  asks: the record's description is the whole blob and its title is \<open>N/A\<close>.
\<close>

theorem json_blob_read_as_plain_text:
  "\<exists>j. parse_job loads (Some ''{\"title\": \"Engineer\", \"description\": \"Java\"}'') = Inr j \<and>
       description j = ''{\"title\": \"Engineer\", \"description\": \"Java\"}'' \<and>
       job_title j = PStr ''N/A''"
proof -
  have "\<not> endswith ''{\"title\": \"Engineer\", \"description\": \"Java\"}'' ''.json''"
    by (simp add: endswith_def)
  then show ?thesis by (simp add: plain_text_record)
qed



subsection \<open>Inputs that cannot be decoded\<close>


text \<open>With a second codec that accepts every byte sequence, as ISO-8859-1 does, the
  reader never returns \<open>None\<close> and never adds a message.\<close>

lemma read_file_content_latin1_total:
  assumes "\<And>bytes. latin1 bytes \<noteq> None"
  shows "fst (read_file_content utf8 latin1 file page) \<noteq> None \<and>
         snd (snd (read_file_content utf8 latin1 file page)) = page"
  using assms [of "fst (fread (snd (fread file)))"]
  by (auto simp: read_file_content_def case_prod_beta split: option.splits)



end
